theory Spec2Isabelle
  imports Main "HOL-Library.Char_ord" "HOL-Library.List_Lexorder"
begin

section \<open>thira: syncing JIRA tickets into Things3\<close>

text \<open>
  A shallow embedding of \<^verbatim>\<open>src/main.py\<close>. The program is stateful and talks to three
  outside parties: the state file on disk, the JIRA server and the \<^verbatim>\<open>open\<close> command
  that hands a \<^verbatim>\<open>things://\<close> URL to Things3. The mutable part is a record \<open>world\<close>
  threaded through every operation; what the outside decides (whether a write succeeds,
  what the clock shows, how \<^verbatim>\<open>open\<close> exits, what JIRA answers) is read from
  oracles in a record \<open>env\<close>. Everything printed is appended to the \<open>printed\<close> of the
  world, one \<open>message\<close> per \<^verbatim>\<open>print\<close> call, with the interpolated values as arguments.
\<close>

subsection \<open>Values\<close>

text \<open>
  A Python \<^verbatim>\<open>str\<close> is modelled as a \<open>string\<close> whose elements stand for the
  characters of the Python string, so that \<open>length\<close> is Python's \<^verbatim>\<open>len\<close>.
\<close>

definition nl :: string where
  "nl = [CHR 0x0A]"

fun join :: "string \<Rightarrow> string list \<Rightarrow> string" where
  "join sep [] = []"
| "join sep [p] = p"
| "join sep (p # q # ps) = p @ sep @ join sep (q # ps)"

text \<open>The exceptions the program catches or lets through, with what \<^verbatim>\<open>{e}\<close> would show.\<close>

datatype exn =
    JSONDecodeError
  | IOError
  | CalledProcessError int
  | OtherError string

text \<open>The values stored in the dictionary that \<^verbatim>\<open>get_sync_stats\<close> returns.\<close>

datatype pyval = PInt int | PStr string | PList "string list"

type_synonym pydict = "(string \<times> pyval) list"

definition dict_get :: "pydict \<Rightarrow> string \<Rightarrow> pyval \<Rightarrow> pyval" where
  "dict_get d k dflt = (case map_of d k of None \<Rightarrow> dflt | Some v \<Rightarrow> v)"

subsection \<open>The state file\<close>

text \<open>
  The JSON object the program writes has the keys \<^verbatim>\<open>synced_tickets\<close> (a list of
  strings) and \<^verbatim>\<open>last_sync\<close> (a string); \<^verbatim>\<open>data.get\<close> reads both with a default,
  so either key may be missing. A file at the path is in one of three conditions:
  opening or reading it raises \<^verbatim>\<open>IOError\<close>; \<^verbatim>\<open>json.load\<close> rejects its text with
  \<^verbatim>\<open>JSONDecodeError\<close> (the empty file that the first run creates is such a file, and
  so is a file cut short by a failed write); or it holds such an object. JSON text
  of any other shape is outside the model: the program never writes one.
\<close>

record state_data =
  data_synced_tickets :: "string list option"
  data_last_sync :: "string option"

datatype disk_file = Unreadable | Invalid_json | Json_object state_data

subsection \<open>The environment and the world\<close>

datatype write_result = Write_ok | Open_fails | Write_fails

datatype proc_result = Exit_zero | Exit_nonzero int | Launch_fails string

text \<open>
  \<open>write_outcome e n\<close> is the outcome of the \<open>n\<close>-th attempt of the process to open the
  state file for writing: success, \<^verbatim>\<open>open\<close> raising \<^verbatim>\<open>IOError\<close> (the file is
  left as it was), or the write raising \<^verbatim>\<open>IOError\<close> after \<^verbatim>\<open>open\<close> has truncated
  the file. \<open>now e n\<close> is \<^verbatim>\<open>datetime.now().isoformat()\<close> at that attempt.
  \<open>open_outcome e n\<close> is how the \<open>n\<close>-th \<^verbatim>\<open>subprocess.run(["open", url], check=True)\<close>
  ends: exit status zero, a non-zero exit status (\<^verbatim>\<open>CalledProcessError\<close>), or
  any other exception (the command cannot be started).
\<close>

record env =
  write_outcome :: "nat \<Rightarrow> write_result"
  now :: "nat \<Rightarrow> string"
  open_outcome :: "nat \<Rightarrow> proc_result"

text \<open>
  A URL handed to \<^verbatim>\<open>open\<close>: the action and the parameter dictionary, in insertion
  order. The percent-encoding of \<^verbatim>\<open>urlencode\<close> is not modelled.
\<close>

datatype url = Things_url string "(string \<times> string) list"

datatype message =
    Warning_load exn
  | Warning_create
  | Warning_save
  | Error_adding_todo exn
  | Error_fetching exn
  | Starting
  | Previous_stats pyval pyval
  | No_tickets_found
  | Found nat
  | Skipping nat
  | No_new_tickets
  | Syncing nat
  | Success_line string string string
  | Failed_to_sync string
  | Error_syncing string exn
  | Sync_completed nat nat
  | Total_ever pyval

text \<open>
  \<open>synced_tickets\<close> is the attribute of \<^verbatim>\<open>StateManager\<close>; \<open>state_file\<close> is what is on
  disk at \<^verbatim>\<open>STATE_FILE\<close> (\<open>None\<close> when \<^verbatim>\<open>os.path.exists\<close> is false); \<open>writes\<close> counts
  the attempts to open the file for writing; \<open>opened\<close> lists the URLs passed to
  \<^verbatim>\<open>open\<close> so far, whatever the outcome; \<open>printed\<close> is what has been printed.
\<close>

record world =
  synced_tickets :: "string set"
  state_file :: "disk_file option"
  writes :: nat
  opened :: "url list"
  printed :: "message list"

definition print_msg :: "message \<Rightarrow> world \<Rightarrow> world" where
  "print_msg m w = w\<lparr>printed := printed w @ [m]\<rparr>"

subsection \<open>StateManager\<close>

text \<open>
  \<^verbatim>\<open>_load_state\<close>: the set read from the file, or the empty set. When the file does
  not exist the program tries to create an empty one.
\<close>

definition load_state :: "env \<Rightarrow> world \<Rightarrow> string set \<times> world" where
  "load_state e w =
     (case state_file w of
        Some Unreadable \<Rightarrow> ({}, print_msg (Warning_load IOError) w)
      | Some Invalid_json \<Rightarrow> ({}, print_msg (Warning_load JSONDecodeError) w)
      | Some (Json_object d) \<Rightarrow>
          (set (case data_synced_tickets d of None \<Rightarrow> [] | Some ks \<Rightarrow> ks), w)
      | None \<Rightarrow>
          (case write_outcome e (writes w) of
             Write_ok \<Rightarrow> ({}, w\<lparr>state_file := Some Invalid_json, writes := Suc (writes w)\<rparr>)
           | Open_fails \<Rightarrow> ({}, print_msg Warning_create (w\<lparr>writes := Suc (writes w)\<rparr>))
           | Write_fails \<Rightarrow>
               ({}, print_msg Warning_create
                      (w\<lparr>state_file := Some Invalid_json, writes := Suc (writes w)\<rparr>))))"

text \<open>\<^verbatim>\<open>StateManager.__init__\<close>: the in-memory set is whatever \<^verbatim>\<open>_load_state\<close> returns.\<close>

definition new_StateManager :: "env \<Rightarrow> world \<Rightarrow> world" where
  "new_StateManager e w = (case load_state e w of (s, w') \<Rightarrow> w'\<lparr>synced_tickets := s\<rparr>)"

text \<open>
  \<^verbatim>\<open>_save_state\<close>. \<^verbatim>\<open>list(self.synced_tickets)\<close> enumerates the set in an order
  Python does not specify; the model takes the sorted enumeration.
\<close>

definition save_state :: "env \<Rightarrow> world \<Rightarrow> world" where
  "save_state e w =
     (let state_data = \<lparr>data_synced_tickets = Some (sorted_list_of_set (synced_tickets w)),
                        data_last_sync = Some (now e (writes w))\<rparr>
      in case write_outcome e (writes w) of
           Write_ok \<Rightarrow> w\<lparr>state_file := Some (Json_object state_data), writes := Suc (writes w)\<rparr>
         | Open_fails \<Rightarrow> print_msg Warning_save (w\<lparr>writes := Suc (writes w)\<rparr>)
         | Write_fails \<Rightarrow>
             print_msg Warning_save
               (w\<lparr>state_file := Some Invalid_json, writes := Suc (writes w)\<rparr>))"

definition is_ticket_synced :: "world \<Rightarrow> string \<Rightarrow> bool" where
  "is_ticket_synced w ticket_key = (ticket_key \<in> synced_tickets w)"

definition mark_ticket_synced :: "env \<Rightarrow> string \<Rightarrow> world \<Rightarrow> world" where
  "mark_ticket_synced e ticket_key w =
     save_state e (w\<lparr>synced_tickets := insert ticket_key (synced_tickets w)\<rparr>)"

definition remove_ticket :: "env \<Rightarrow> string \<Rightarrow> world \<Rightarrow> world" where
  "remove_ticket e ticket_key w =
     save_state e (w\<lparr>synced_tickets := synced_tickets w - {ticket_key}\<rparr>)"

text \<open>
  \<^verbatim>\<open>get_sync_stats\<close> reads the file again; the dictionary stays empty when the file
  does not exist or cannot be read or parsed.
\<close>

definition get_sync_stats :: "world \<Rightarrow> pydict \<times> world" where
  "get_sync_stats w =
     (case state_file w of
        None \<Rightarrow> ([], w)
      | Some Unreadable \<Rightarrow> ([], print_msg (Warning_load IOError) w)
      | Some Invalid_json \<Rightarrow> ([], print_msg (Warning_load JSONDecodeError) w)
      | Some (Json_object d) \<Rightarrow>
          (let ks = (case data_synced_tickets d of None \<Rightarrow> [] | Some ks \<Rightarrow> ks)
           in ([(''total_synced'', PInt (int (length ks))),
                (''last_sync'', PStr (case data_last_sync d of None \<Rightarrow> ''Never'' | Some t \<Rightarrow> t)),
                (''synced_tickets'', PList ks)], w)))"

subsection \<open>Things3Manager\<close>

text \<open>
  \<^verbatim>\<open>add_todo\<close> builds the parameter dictionary, leaving out every optional
  parameter that is empty, and passes the URL to \<^verbatim>\<open>open\<close>. It returns \<^verbatim>\<open>True\<close>,
  or prints the error and returns \<^verbatim>\<open>False\<close> on \<^verbatim>\<open>CalledProcessError\<close>; any other
  exception leaves the function (\<open>Inl\<close>).
\<close>

definition default_project :: string where
  "default_project = ''GXZujchhWvXFy6jsS7bFWS''"

definition todo_params ::
  "string \<Rightarrow> string \<Rightarrow> string \<Rightarrow> string list \<Rightarrow> string \<Rightarrow> string \<Rightarrow> (string \<times> string) list" where
  "todo_params title notes project tags due_date when =
     [(''title'', title)]
     @ (if notes \<noteq> [] then [(''notes'', notes)] else [])
     @ (if project \<noteq> [] then [(''list-id'', project)] else [])
     @ (if tags \<noteq> [] then [(''tags'', join '','' tags)] else [])
     @ (if due_date \<noteq> [] then [(''due-date'', due_date)] else [])
     @ (if when \<noteq> [] then [(''when'', when)] else [])"

definition add_todo ::
  "env \<Rightarrow> string \<Rightarrow> string \<Rightarrow> string \<Rightarrow> string list \<Rightarrow> string \<Rightarrow> string \<Rightarrow> world
     \<Rightarrow> (exn + bool) \<times> world" where
  "add_todo e title notes project tags due_date when w =
     (let full_url = Things_url ''add'' (todo_params title notes project tags due_date when);
          w' = w\<lparr>opened := opened w @ [full_url]\<rparr>
      in case open_outcome e (length (opened w)) of
           Exit_zero \<Rightarrow> (Inr True, w')
         | Exit_nonzero c \<Rightarrow> (Inr False, print_msg (Error_adding_todo (CalledProcessError c)) w')
         | Launch_fails m \<Rightarrow> (Inl (OtherError m), w'))"

subsection \<open>JiraManager\<close>

text \<open>
  An issue as the program reads it. \<^verbatim>\<open>hasattr(issue.fields, "reporter")\<close> and
  \<^verbatim>\<open>hasattr(issue.fields, "description")\<close> make both attributes optional (\<open>None\<close>
  when the attribute does not exist). The reporter, when there, is read through
  \<^verbatim>\<open>.displayName\<close>, so it is an object with that attribute and the model keeps the
  name. The description, when there, is tested for truth before \<^verbatim>\<open>len\<close>, so it
  holds a string or Python's \<^verbatim>\<open>None\<close> (\<open>Some None\<close>).
\<close>

record issue_fields =
  summary :: string
  reporter :: "string option"
  description :: "string option option"

record issue =
  key :: string
  permalink :: string
  fields_attr :: issue_fields

text \<open>What an f-string shows for a value that is a string or \<^verbatim>\<open>None\<close>.\<close>

fun fstr :: "string option \<Rightarrow> string" where
  "fstr None = ''None''"
| "fstr (Some s) = s"

text \<open>\<^verbatim>\<open>search_issues\<close> of the JIRA client: the issues, or an exception.\<close>

record jira =
  search_issues :: "string \<Rightarrow> nat \<Rightarrow> exn + issue list"

definition get_assigned_tickets :: "jira \<Rightarrow> nat \<Rightarrow> world \<Rightarrow> issue list \<times> world" where
  "get_assigned_tickets jm max_results w =
     (let jql = ''assignee = currentUser() AND resolution = Unresolved ORDER BY created DESC''
      in case search_issues jm jql max_results of
           Inr issues \<Rightarrow> (issues, w)
         | Inl ex \<Rightarrow> ([], print_msg (Error_fetching ex) w))"

definition get_tickets_by_jql :: "jira \<Rightarrow> string \<Rightarrow> nat \<Rightarrow> world \<Rightarrow> issue list \<times> world" where
  "get_tickets_by_jql jm jql max_results w =
     (case search_issues jm jql max_results of
        Inr issues \<Rightarrow> (issues, w)
      | Inl ex \<Rightarrow> ([], print_msg (Error_fetching ex) w))"

definition format_ticket_name :: "issue \<Rightarrow> string" where
  "format_ticket_name issue = ''['' @ key issue @ ''] '' @ summary (fields_attr issue)"

text \<open>
  The two lines that shorten the description: only a non-empty string longer than
  500 characters is replaced.
\<close>

definition shorten :: "string option \<Rightarrow> string option" where
  "shorten body =
     (case body of
        None \<Rightarrow> None
      | Some d \<Rightarrow> if d \<noteq> [] \<and> length d > 500 then Some (take 500 d @ ''...'') else Some d)"

definition format_ticket_notes :: "issue \<Rightarrow> string" where
  "format_ticket_notes issue =
     (let notes_parts = [''**Ticket** '' @ key issue, ''**URL** '' @ permalink issue];
          notes_parts =
            (case reporter (fields_attr issue) of
               None \<Rightarrow> notes_parts
             | Some displayName \<Rightarrow> notes_parts @ [''**Reporter** '' @ displayName]);
          notes_parts =
            (case description (fields_attr issue) of
               None \<Rightarrow> notes_parts
             | Some body \<Rightarrow>
                 notes_parts @ [nl @ ''**Description**'' @ nl @ fstr (shorten body)])
      in join nl notes_parts)"

definition get_ticket_tags :: "issue \<Rightarrow> string list" where
  "get_ticket_tags issue = [''jira'']"

subsection \<open>Thira.sync_tickets\<close>

text \<open>
  The test of the first loop (line 316): a ticket is kept for syncing unless both
  flags are off and it is in the set. The label of the second loop (line 339).
\<close>

definition to_sync :: "bool \<Rightarrow> bool \<Rightarrow> bool \<Rightarrow> bool" where
  "to_sync force_resync update_existing synced =
     (force_resync \<or> update_existing \<or> \<not> synced)"

definition action_label :: "bool \<Rightarrow> bool \<Rightarrow> string" where
  "action_label update_existing synced =
     (if update_existing \<and> synced then ''Updated'' else ''Synced'')"

text \<open>The first loop, with its two accumulators \<^verbatim>\<open>tickets_to_sync\<close> and \<^verbatim>\<open>skipped_count\<close>.\<close>

fun select_tickets ::
  "bool \<Rightarrow> bool \<Rightarrow> world \<Rightarrow> issue list \<Rightarrow> issue list \<times> nat \<Rightarrow> issue list \<times> nat" where
  "select_tickets force_resync update_existing w [] acc = acc"
| "select_tickets force_resync update_existing w (issue # issues) (tickets_to_sync, skipped_count) =
     (if to_sync force_resync update_existing (is_ticket_synced w (key issue))
      then select_tickets force_resync update_existing w issues
             (tickets_to_sync @ [issue], skipped_count)
      else select_tickets force_resync update_existing w issues
             (tickets_to_sync, Suc skipped_count))"

text \<open>
  The body of the second loop, on the world and \<^verbatim>\<open>synced_count\<close>. The three
  outcomes of \<^verbatim>\<open>add_todo\<close> are the three branches: success, \<^verbatim>\<open>False\<close>, and the
  exception caught by \<^verbatim>\<open>except Exception\<close>.
\<close>

definition sync_one :: "env \<Rightarrow> bool \<Rightarrow> issue \<Rightarrow> world \<times> nat \<Rightarrow> world \<times> nat" where
  "sync_one e update_existing issue s =
     (case s of (w, synced_count) \<Rightarrow>
        (let action = action_label update_existing (is_ticket_synced w (key issue));
             title = format_ticket_name issue;
             notes = format_ticket_notes issue;
             tags = get_ticket_tags issue
         in case add_todo e title notes default_project tags [] [] w of
              (Inr True, w') \<Rightarrow>
                (mark_ticket_synced e (key issue)
                   (print_msg (Success_line action (key issue) (summary (fields_attr issue))) w'),
                 Suc synced_count)
            | (Inr False, w') \<Rightarrow> (print_msg (Failed_to_sync (key issue)) w', synced_count)
            | (Inl ex, w') \<Rightarrow> (print_msg (Error_syncing (key issue) ex) w', synced_count)))"

text \<open>Lines 292 to 297: the statistics of the previous run, when there are any.\<close>

definition show_previous_stats :: "world \<Rightarrow> world" where
  "show_previous_stats w =
     (case get_sync_stats w of (stats, w') \<Rightarrow>
        if stats \<noteq> []
        then print_msg (Previous_stats (dict_get stats ''total_synced'' (PInt 0))
                                       (dict_get stats ''last_sync'' (PStr ''Never''))) w'
        else w')"

text \<open>Lines 299 to 303: the issues to work on.\<close>

definition fetch_issues :: "jira \<Rightarrow> string \<Rightarrow> world \<Rightarrow> issue list \<times> world" where
  "fetch_issues jm jql w =
     (if jql \<noteq> [] then get_tickets_by_jql jm jql 50 w else get_assigned_tickets jm 50 w)"

text \<open>Lines 328 to 360: the second loop and the closing lines.\<close>

definition sync_selected :: "env \<Rightarrow> bool \<Rightarrow> issue list \<Rightarrow> world \<Rightarrow> world" where
  "sync_selected e update_existing tickets_to_sync w =
     (case fold (sync_one e update_existing) tickets_to_sync
             (print_msg (Syncing (length tickets_to_sync)) w, 0) of
        (w', synced_count) \<Rightarrow>
          (case get_sync_stats
                  (print_msg (Sync_completed synced_count (length tickets_to_sync)) w') of
             (final_stats, w'') \<Rightarrow>
               print_msg (Total_ever (dict_get final_stats ''total_synced'' (PInt 0))) w''))"

text \<open>
  \<^verbatim>\<open>sync_tickets\<close> returns nothing on every path (\<^verbatim>\<open>None\<close>, here the value of type
  \<open>unit\<close>); what it does is in the world it leaves. The parameter \<^verbatim>\<open>project_name\<close>
  is not used by the code and is left out.
\<close>

definition sync_tickets ::
  "env \<Rightarrow> jira \<Rightarrow> string \<Rightarrow> bool \<Rightarrow> bool \<Rightarrow> world \<Rightarrow> unit \<times> world" where
  "sync_tickets e jm jql force_resync update_existing w =
     (case fetch_issues jm jql (show_previous_stats (print_msg Starting w)) of
        (issues, w1) \<Rightarrow>
          if issues = [] then ((), print_msg No_tickets_found w1)
          else
            (let w2 = print_msg (Found (length issues)) w1
             in case select_tickets force_resync update_existing w2 issues ([], 0) of
                  (tickets_to_sync, skipped_count) \<Rightarrow>
                    (let w3 = (if skipped_count > 0
                               then print_msg (Skipping skipped_count) w2 else w2)
                     in if tickets_to_sync = [] then ((), print_msg No_new_tickets w3)
                        else ((), sync_selected e update_existing tickets_to_sync w3))))"

subsection \<open>Notions used to state the properties\<close>




text \<open>The URL that \<^verbatim>\<open>sync_tickets\<close> has \<^verbatim>\<open>add_todo\<close> open for an issue.\<close>

definition todo_url :: "issue \<Rightarrow> url" where
  "todo_url issue =
     Things_url ''add''
       (todo_params (format_ticket_name issue) (format_ticket_notes issue) default_project
          (get_ticket_tags issue) [] [])"

text \<open>
  The issues of a list whose \<^verbatim>\<open>open\<close> call exits with status zero, when the calls
  for the list are the \<open>n\<close>-th, the next, and so on.
\<close>

fun succeeded :: "env \<Rightarrow> nat \<Rightarrow> issue list \<Rightarrow> issue list" where
  "succeeded e n [] = []"
| "succeeded e n (issue # issues) =
     (if open_outcome e n = Exit_zero then [issue] else []) @ succeeded e (Suc n) issues"

text \<open>
  Three kinds of printed lines: the lines that carry the counts of a run, the line
  of a synced ticket, and the line of a failed one. A list of messages is \<open>quiet\<close>
  when it has none of them.
\<close>

fun is_summary :: "message \<Rightarrow> bool" where
  "is_summary No_tickets_found = True"
| "is_summary (Found n) = True"
| "is_summary (Skipping n) = True"
| "is_summary No_new_tickets = True"
| "is_summary (Syncing n) = True"
| "is_summary (Sync_completed s n) = True"
| "is_summary m = False"

fun is_success_line :: "message \<Rightarrow> bool" where
  "is_success_line (Success_line a k s) = True"
| "is_success_line m = False"

fun is_failure_line :: "message \<Rightarrow> bool" where
  "is_failure_line (Failed_to_sync k) = True"
| "is_failure_line (Error_syncing k ex) = True"
| "is_failure_line m = False"

definition quiet :: "message list \<Rightarrow> bool" where
  "quiet ms = (filter is_summary ms = [] \<and> filter is_success_line ms = []
               \<and> filter is_failure_line ms = [])"

text \<open>The issues that the first loop keeps.\<close>

definition selected :: "bool \<Rightarrow> bool \<Rightarrow> world \<Rightarrow> issue list \<Rightarrow> issue list" where
  "selected force_resync update_existing w issues =
     filter (\<lambda>issue. to_sync force_resync update_existing (is_ticket_synced w (key issue))) issues"

text \<open>The state file holds the very set that is in memory.\<close>

definition stored :: "world \<Rightarrow> bool" where
  "stored w =
     (case state_file w of
        Some (Json_object d) \<Rightarrow>
          data_synced_tickets d = Some (sorted_list_of_set (synced_tickets w))
      | _ \<Rightarrow> False)"

subsection \<open>Concrete inputs\<close>

text \<open>
  An environment where every write and every \<^verbatim>\<open>open\<close> succeeds, one where the second
  \<^verbatim>\<open>open\<close> exits with status 1, one where the state file cannot be opened for
  writing; a world with nothing in memory and no state file; tickets with a key
  only; a JIRA client that answers every query with the same issues.
\<close>

definition env_ok :: env where
  "env_ok = \<lparr>write_outcome = (\<lambda>n. Write_ok), now = (\<lambda>n. ''2025-06-01T12:00:00''),
            open_outcome = (\<lambda>n. Exit_zero)\<rparr>"


definition env_no_write :: env where
  "env_no_write = \<lparr>write_outcome = (\<lambda>n. Open_fails), now = (\<lambda>n. ''2025-06-01T12:00:00''),
                  open_outcome = (\<lambda>n. Exit_zero)\<rparr>"

definition world0 :: world where
  "world0 = \<lparr>synced_tickets = {}, state_file = None, writes = 0, opened = [], printed = []\<rparr>"

definition ticket :: "string \<Rightarrow> issue" where
  "ticket k = \<lparr>key = k, permalink = ''https://jira/browse/'' @ k,
              fields_attr = \<lparr>summary = ''s'', reporter = None, description = None\<rparr>\<rparr>"

definition jira_of :: "issue list \<Rightarrow> jira" where
  "jira_of issues = \<lparr>search_issues = (\<lambda>jql max_results. Inr issues)\<rparr>"

section \<open>Properties\<close>

subsection \<open>What each operation touches\<close>

lemma print_msg_simps:
  "synced_tickets (print_msg m w) = synced_tickets w"
  "state_file (print_msg m w) = state_file w"
  "writes (print_msg m w) = writes w"
  "opened (print_msg m w) = opened w"
  "printed (print_msg m w) = printed w @ [m]"
  by (simp_all add: print_msg_def)

lemma save_state_synced: "synced_tickets (save_state e w) = synced_tickets w"
  by (simp add: save_state_def Let_def print_msg_simps split: write_result.splits)

lemma save_state_opened: "opened (save_state e w) = opened w"
  by (simp add: save_state_def Let_def print_msg_simps split: write_result.splits)

lemma save_state_writes: "writes (save_state e w) = Suc (writes w)"
  by (simp add: save_state_def Let_def print_msg_simps split: write_result.splits)

lemma mark_synced: "synced_tickets (mark_ticket_synced e k w) = insert k (synced_tickets w)"
  by (simp add: mark_ticket_synced_def save_state_synced)

lemma remove_synced: "synced_tickets (remove_ticket e k w) = synced_tickets w - {k}"
  by (simp add: remove_ticket_def save_state_synced)

lemma save_state_ok:
  "write_outcome e (writes w) = Write_ok \<Longrightarrow>
   state_file (save_state e w) =
     Some (Json_object \<lparr>data_synced_tickets = Some (sorted_list_of_set (synced_tickets w)),
                        data_last_sync = Some (now e (writes w))\<rparr>)
   \<and> printed (save_state e w) = printed w"
  by (simp add: save_state_def Let_def)




subsection \<open>The ledger\<close>

text \<open>
  C10. Marking or removing a ticket \<open>x\<close> leaves the membership of every other
  ticket \<open>y\<close> as it was, and marking a ticket that is already in the set leaves
  the set as it was.
\<close>

theorem ledger_frame:
  "(x \<noteq> y \<longrightarrow>
      is_ticket_synced (mark_ticket_synced e x w) y = is_ticket_synced w y
      \<and> is_ticket_synced (remove_ticket e x w) y = is_ticket_synced w y)
   \<and> (is_ticket_synced w x \<longrightarrow>
        synced_tickets (mark_ticket_synced e x w) = synced_tickets w)"
  by (auto simp: is_ticket_synced_def mark_synced remove_synced)

theorem ledger_frame_witness:
  "''A'' \<noteq> ''B''
   \<and> is_ticket_synced (world0\<lparr>synced_tickets := {''A''}\<rparr>) ''A''
   \<and> \<not> is_ticket_synced (mark_ticket_synced env_ok ''A'' (world0\<lparr>synced_tickets := {''A''}\<rparr>)) ''B''
   \<and> \<not> is_ticket_synced (remove_ticket env_ok ''A'' (world0\<lparr>synced_tickets := {''A''}\<rparr>)) ''B''
   \<and> synced_tickets (mark_ticket_synced env_ok ''A'' (world0\<lparr>synced_tickets := {''A''}\<rparr>))
       = {''A''}"
  using ledger_frame [of "''A''" "''B''" env_ok "world0\<lparr>synced_tickets := {''A''}\<rparr>"]
  by (simp add: is_ticket_synced_def world0_def)


lemma new_StateManager_synced:
  "synced_tickets (new_StateManager e w) = fst (load_state e w)"
  by (cases "load_state e w") (simp add: new_StateManager_def)






subsection \<open>The notes of a ticket\<close>



subsection \<open>The messages of a run\<close>

lemma quiet_simps:
  "quiet []" "quiet [Warning_load x]" "quiet [Warning_create]" "quiet [Warning_save]"
  "quiet [Error_adding_todo x]" "quiet [Error_fetching x]" "quiet [Starting]"
  "quiet [Previous_stats a b]" "quiet [Total_ever a]"
  by (simp_all add: quiet_def)

lemma quiet_append: "quiet (ms @ ms') = (quiet ms \<and> quiet ms')"
  by (auto simp: quiet_def)

lemma select_tickets_eq:
  "select_tickets f u w issues (ts, n) =
     (ts @ filter (\<lambda>i. to_sync f u (is_ticket_synced w (key i))) issues,
      n + length (filter (\<lambda>i. \<not> to_sync f u (is_ticket_synced w (key i))) issues))"
  by (induction issues arbitrary: ts n) simp_all

lemma get_sync_stats_world:
  "\<exists>ms. snd (get_sync_stats w) = w\<lparr>printed := printed w @ ms\<rparr> \<and> quiet ms"
proof (cases "state_file w")
  case None
  then have "snd (get_sync_stats w) = w\<lparr>printed := printed w @ []\<rparr>"
    by (simp add: get_sync_stats_def)
  then show ?thesis using quiet_simps(1) by blast
next
  case (Some f)
  show ?thesis
  proof (cases f)
    case Unreadable
    with Some have "snd (get_sync_stats w) = w\<lparr>printed := printed w @ [Warning_load IOError]\<rparr>"
      by (simp add: get_sync_stats_def print_msg_def)
    then show ?thesis using quiet_simps(2) by blast
  next
    case Invalid_json
    with Some have "snd (get_sync_stats w) = w\<lparr>printed := printed w @ [Warning_load JSONDecodeError]\<rparr>"
      by (simp add: get_sync_stats_def print_msg_def)
    then show ?thesis using quiet_simps(2) by blast
  next
    case (Json_object d)
    with Some have "snd (get_sync_stats w) = w\<lparr>printed := printed w @ []\<rparr>"
      by (simp add: get_sync_stats_def Let_def)
    then show ?thesis using quiet_simps(1) by blast
  qed
qed

lemma show_previous_stats_world:
  "\<exists>ms. show_previous_stats w = w\<lparr>printed := printed w @ ms\<rparr> \<and> quiet ms"
proof -
  obtain ms where ms: "snd (get_sync_stats w) = w\<lparr>printed := printed w @ ms\<rparr>" "quiet ms"
    using get_sync_stats_world by blast
  obtain stats w' where g: "get_sync_stats w = (stats, w')" by (cases "get_sync_stats w")
  with ms have w': "w' = w\<lparr>printed := printed w @ ms\<rparr>" by simp
  show ?thesis
  proof (cases "stats = []")
    case True
    with g w' have "show_previous_stats w = w\<lparr>printed := printed w @ ms\<rparr>"
      by (simp add: show_previous_stats_def)
    with ms(2) show ?thesis by blast
  next
    case False
    let ?m = "Previous_stats (dict_get stats ''total_synced'' (PInt 0))
                             (dict_get stats ''last_sync'' (PStr ''Never''))"
    from False g w' have "show_previous_stats w = w\<lparr>printed := printed w @ (ms @ [?m])\<rparr>"
      by (simp add: show_previous_stats_def print_msg_def)
    moreover have "quiet (ms @ [?m])" using ms(2) by (simp add: quiet_append quiet_simps)
    ultimately show ?thesis by blast
  qed
qed

lemma fetch_issues_fst: "fst (fetch_issues jm jql w) = fst (fetch_issues jm jql w')"
  by (simp add: fetch_issues_def get_tickets_by_jql_def get_assigned_tickets_def Let_def
      split: sum.splits)

lemma fetch_issues_world:
  "\<exists>ms. snd (fetch_issues jm jql w) = w\<lparr>printed := printed w @ ms\<rparr> \<and> quiet ms"
proof -
  have "snd (fetch_issues jm jql w) = w\<lparr>printed := printed w @ []\<rparr>
        \<or> (\<exists>x. snd (fetch_issues jm jql w) = w\<lparr>printed := printed w @ [Error_fetching x]\<rparr>)"
    by (auto simp: fetch_issues_def get_tickets_by_jql_def get_assigned_tickets_def Let_def
        print_msg_def split: sum.splits)
  then show ?thesis using quiet_simps(1,6) by blast
qed

subsection \<open>The second loop\<close>

lemma sync_one_ok:
  "open_outcome e (length (opened w)) = Exit_zero \<Longrightarrow>
   sync_one e u i (w, c) =
     (mark_ticket_synced e (key i)
        (print_msg (Success_line (action_label u (is_ticket_synced w (key i))) (key i)
                      (summary (fields_attr i)))
           (w\<lparr>opened := opened w @ [todo_url i]\<rparr>)), Suc c)"
  by (simp add: sync_one_def add_todo_def todo_url_def Let_def)

lemma sync_one_false:
  "open_outcome e (length (opened w)) = Exit_nonzero x \<Longrightarrow>
   sync_one e u i (w, c) =
     (w\<lparr>opened := opened w @ [todo_url i],
        printed := printed w @ [Error_adding_todo (CalledProcessError x), Failed_to_sync (key i)]\<rparr>, c)"
  by (simp add: sync_one_def add_todo_def todo_url_def Let_def print_msg_def)

lemma sync_one_raise:
  "open_outcome e (length (opened w)) = Launch_fails m \<Longrightarrow>
   sync_one e u i (w, c) =
     (w\<lparr>opened := opened w @ [todo_url i],
        printed := printed w @ [Error_syncing (key i) (OtherError m)]\<rparr>, c)"
  by (simp add: sync_one_def add_todo_def todo_url_def Let_def print_msg_def)

lemma sync_one_opened: "opened (fst (sync_one e u i (w, c))) = opened w @ [todo_url i]"
  by (cases "open_outcome e (length (opened w))")
    (simp_all add: sync_one_ok sync_one_false sync_one_raise mark_ticket_synced_def
      save_state_opened print_msg_simps)

lemma sync_one_synced:
  "synced_tickets (fst (sync_one e u i (w, c))) =
     synced_tickets w \<union> key ` set (succeeded e (length (opened w)) [i])"
  by (cases "open_outcome e (length (opened w))")
    (simp_all add: sync_one_ok sync_one_false sync_one_raise mark_synced print_msg_simps)




lemma succeeded_Cons:
  "succeeded e n (i # ts) = succeeded e n [i] @ succeeded e (Suc n) ts"
  by simp


lemma fold_sync_one_opened:
  "opened (fst (fold (sync_one e u) ts (w, c))) = opened w @ map todo_url ts"
proof (induction ts arbitrary: w c)
  case Nil
  show ?case by simp
next
  case (Cons i ts)
  obtain w' c' where s: "sync_one e u i (w, c) = (w', c')"
    by (cases "sync_one e u i (w, c)")
  then have "opened w' = opened w @ [todo_url i]"
    using sync_one_opened [of e u i w c] by simp
  then show ?case using Cons.IH [of w' c'] by (simp add: s)
qed

lemma fold_sync_one_synced:
  "synced_tickets (fst (fold (sync_one e u) ts (w, c))) =
     synced_tickets w \<union> key ` set (succeeded e (length (opened w)) ts)"
proof (induction ts arbitrary: w c)
  case Nil
  show ?case by simp
next
  case (Cons i ts)
  obtain w' c' where s: "sync_one e u i (w, c) = (w', c')"
    by (cases "sync_one e u i (w, c)")
  then have o: "length (opened w') = Suc (length (opened w))"
    using sync_one_opened [of e u i w c] by simp
  have t: "synced_tickets w' =
      synced_tickets w \<union> key ` set (succeeded e (length (opened w)) [i])"
    using sync_one_synced [of e u i w c] s by simp
  have "synced_tickets (fst (fold (sync_one e u) (i # ts) (w, c))) =
      synced_tickets w' \<union> key ` set (succeeded e (Suc (length (opened w))) ts)"
    using Cons.IH [of w' c'] by (simp add: s o)
  also have "\<dots> = synced_tickets w \<union> key ` set (succeeded e (length (opened w)) (i # ts))"
    unfolding t by (subst succeeded_Cons) (auto simp del: succeeded.simps)
  finally show ?case .
qed



lemma succeeded_all:
  "(\<forall>j < length ts. open_outcome e (n + j) = Exit_zero) \<Longrightarrow> succeeded e n ts = ts"
proof (induction ts arbitrary: n)
  case Nil
  show ?case by simp
next
  case (Cons i ts)
  from Cons.prems have "open_outcome e n = Exit_zero" by force
  moreover have "\<forall>j < length ts. open_outcome e (Suc n + j) = Exit_zero"
    using Cons.prems by force
  ultimately show ?case using Cons.IH [of "Suc n"] by simp
qed



subsection \<open>The whole run\<close>

lemma sync_selected_fold:
  "\<exists>ms. sync_selected e u ts w =
           (fst (fold (sync_one e u) ts (print_msg (Syncing (length ts)) w, 0)))
             \<lparr>printed := printed (fst (fold (sync_one e u) ts (print_msg (Syncing (length ts)) w, 0)))
                 @ Sync_completed (snd (fold (sync_one e u) ts (print_msg (Syncing (length ts)) w, 0)))
                     (length ts) # ms\<rparr>
         \<and> quiet ms"
proof -
  let ?s = "fold (sync_one e u) ts (print_msg (Syncing (length ts)) w, 0)"
  let ?w = "print_msg (Sync_completed (snd ?s) (length ts)) (fst ?s)"
  obtain ms where ms: "snd (get_sync_stats ?w) = ?w\<lparr>printed := printed ?w @ ms\<rparr>" "quiet ms"
    using get_sync_stats_world by blast
  obtain st w'' where g: "get_sync_stats ?w = (st, w'')" by (cases "get_sync_stats ?w")
  let ?t = "Total_ever (dict_get st ''total_synced'' (PInt 0))"
  have "sync_selected e u ts w = print_msg ?t w''"
    using g by (simp add: sync_selected_def case_prod_beta)
  also have "\<dots> = (fst ?s)\<lparr>printed := printed (fst ?s)
      @ Sync_completed (snd ?s) (length ts) # (ms @ [?t])\<rparr>"
    using ms(1) g by (simp add: print_msg_def)
  finally have "sync_selected e u ts w = (fst ?s)\<lparr>printed := printed (fst ?s)
      @ Sync_completed (snd ?s) (length ts) # (ms @ [?t])\<rparr>" .
  moreover have "quiet (ms @ [?t])" using ms(2) by (simp add: quiet_append quiet_simps)
  ultimately show ?thesis by blast
qed

lemma sync_selected_opened:
  "opened (sync_selected e u ts w) = opened w @ map todo_url ts"
proof -
  obtain ms where "sync_selected e u ts w =
           (fst (fold (sync_one e u) ts (print_msg (Syncing (length ts)) w, 0)))
             \<lparr>printed := printed (fst (fold (sync_one e u) ts (print_msg (Syncing (length ts)) w, 0)))
                 @ Sync_completed (snd (fold (sync_one e u) ts (print_msg (Syncing (length ts)) w, 0)))
                     (length ts) # ms\<rparr>"
    using sync_selected_fold by blast
  then show ?thesis by (simp add: fold_sync_one_opened print_msg_simps)
qed

lemma sync_selected_synced:
  "synced_tickets (sync_selected e u ts w) =
     synced_tickets w \<union> key ` set (succeeded e (length (opened w)) ts)"
proof -
  obtain ms where "sync_selected e u ts w =
           (fst (fold (sync_one e u) ts (print_msg (Syncing (length ts)) w, 0)))
             \<lparr>printed := printed (fst (fold (sync_one e u) ts (print_msg (Syncing (length ts)) w, 0)))
                 @ Sync_completed (snd (fold (sync_one e u) ts (print_msg (Syncing (length ts)) w, 0)))
                     (length ts) # ms\<rparr>"
    using sync_selected_fold by blast
  then show ?thesis by (simp add: fold_sync_one_synced print_msg_simps)
qed


lemma selected_Nil: "selected f u w [] = []"
  by (simp add: selected_def)

lemma select_tickets_selected:
  "synced_tickets w' = synced_tickets w \<Longrightarrow>
   select_tickets f u w' issues ([], 0) =
     (selected f u w issues, length issues - length (selected f u w issues))"
  using sum_length_filter_compl [of "\<lambda>i. to_sync f u (is_ticket_synced w (key i))" issues]
  by (simp add: select_tickets_eq selected_def is_ticket_synced_def)

text \<open>The run up to the second loop.\<close>

lemma sync_tickets_cases:
  fixes e jm jql f u w
  defines "issues \<equiv> fst (fetch_issues jm jql w)"
  defines "sel \<equiv> selected f u w issues"
  defines "skipped \<equiv> length issues - length sel"
  shows "\<exists>ms. quiet ms \<and> snd (sync_tickets e jm jql f u w) =
     (if issues = [] then w\<lparr>printed := printed w @ ms @ [No_tickets_found]\<rparr>
      else if sel = []
      then w\<lparr>printed := printed w @ ms @ Found (length issues)
                # (if skipped > 0 then [Skipping skipped] else []) @ [No_new_tickets]\<rparr>
      else sync_selected e u sel
             (w\<lparr>printed := printed w @ ms @ Found (length issues)
                # (if skipped > 0 then [Skipping skipped] else [])\<rparr>))"
proof -
  let ?w0 = "print_msg Starting w"
  obtain ms1 where ms1: "show_previous_stats ?w0 = ?w0\<lparr>printed := printed ?w0 @ ms1\<rparr>" "quiet ms1"
    using show_previous_stats_world by blast
  let ?w0' = "show_previous_stats ?w0"
  obtain ms2 where ms2: "snd (fetch_issues jm jql ?w0') = ?w0'\<lparr>printed := printed ?w0' @ ms2\<rparr>"
    "quiet ms2"
    using fetch_issues_world by blast
  let ?ms = "Starting # ms1 @ ms2"
  have q: "quiet ?ms" using ms1(2) ms2(2) quiet_append [of "[Starting]" "ms1 @ ms2"]
    by (simp add: quiet_append quiet_simps)
  have f1: "fst (fetch_issues jm jql ?w0') = issues"
    unfolding issues_def by (rule fetch_issues_fst)
  have w1: "snd (fetch_issues jm jql ?w0') = w\<lparr>printed := printed w @ ?ms\<rparr>"
    using ms1(1) ms2(1) by (simp add: print_msg_def)
  have fe: "fetch_issues jm jql ?w0' = (issues, w\<lparr>printed := printed w @ ?ms\<rparr>)"
    using f1 w1 by (simp add: prod_eq_iff)
  let ?w2 = "print_msg (Found (length issues)) (w\<lparr>printed := printed w @ ?ms\<rparr>)"
  have s: "select_tickets f u ?w2 issues ([], 0) = (sel, skipped)"
    unfolding sel_def skipped_def
    by (rule select_tickets_selected) (simp add: print_msg_simps)
  let ?w3 = "if skipped > 0 then print_msg (Skipping skipped) ?w2 else ?w2"
  have a: "snd (sync_tickets e jm jql f u w) =
     (if issues = [] then print_msg No_tickets_found (w\<lparr>printed := printed w @ ?ms\<rparr>)
      else if sel = [] then print_msg No_new_tickets ?w3
      else sync_selected e u sel ?w3)"
    by (simp add: sync_tickets_def fe s Let_def)
  have "snd (sync_tickets e jm jql f u w) =
     (if issues = [] then w\<lparr>printed := printed w @ ?ms @ [No_tickets_found]\<rparr>
      else if sel = []
      then w\<lparr>printed := printed w @ ?ms @ Found (length issues)
                # (if skipped > 0 then [Skipping skipped] else []) @ [No_new_tickets]\<rparr>
      else sync_selected e u sel
             (w\<lparr>printed := printed w @ ?ms @ Found (length issues)
                # (if skipped > 0 then [Skipping skipped] else [])\<rparr>))"
    unfolding a by (simp add: print_msg_def)
  with q show ?thesis by blast
qed

lemma sync_tickets_opened:
  "opened (snd (sync_tickets e jm jql f u w)) =
     opened w @ map todo_url (selected f u w (fst (fetch_issues jm jql w)))"
  using sync_tickets_cases [of e jm jql f u w]
  by (auto simp: sync_selected_opened selected_Nil split: if_splits)

lemma sync_tickets_synced:
  "synced_tickets (snd (sync_tickets e jm jql f u w)) =
     synced_tickets w
     \<union> key ` set (succeeded e (length (opened w)) (selected f u w (fst (fetch_issues jm jql w))))"
  using sync_tickets_cases [of e jm jql f u w]
  by (auto simp: sync_selected_synced selected_Nil split: if_splits)

lemma sync_tickets_idle:
  "selected f u w (fst (fetch_issues jm jql w)) = [] \<Longrightarrow>
   state_file (snd (sync_tickets e jm jql f u w)) = state_file w
   \<and> writes (snd (sync_tickets e jm jql f u w)) = writes w"
  using sync_tickets_cases [of e jm jql f u w]
  by (auto simp: selected_Nil split: if_splits)











subsection \<open>Across a restart\<close>

text \<open>
  A second run by a new process starts from what the file holds. When the set in
  memory agreed with the file before the first run and every write of the first
  run succeeded, the new \<^verbatim>\<open>StateManager\<close> holds the same set and the second run
  opens nothing. When the writes failed, the second run sends the tickets again.
\<close>

lemma load_state_fst_file:
  "state_file w = state_file w' \<Longrightarrow> fst (load_state e w) = fst (load_state e' w')"
  by (simp add: load_state_def split: option.splits disk_file.splits write_result.splits)

lemma finite_load_state: "finite (fst (load_state e w))"
proof (cases "state_file w")
  case None
  then show ?thesis by (simp add: load_state_def split: write_result.splits)
next
  case (Some f)
  show ?thesis
  proof (cases f)
    case (Json_object d)
    with Some have "fst (load_state e w)
        = set (case data_synced_tickets d of None \<Rightarrow> [] | Some ks \<Rightarrow> ks)"
      by (simp add: load_state_def)
    then show ?thesis by (simp only: List.finite_set)
  qed (simp_all add: load_state_def Some)
qed

lemma new_StateManager_opened: "opened (new_StateManager e w) = opened w"
  by (simp add: new_StateManager_def load_state_def print_msg_def
      split: option.splits disk_file.splits write_result.splits)

lemma stored_load:
  "stored w \<Longrightarrow> finite (synced_tickets w) \<Longrightarrow> fst (load_state e w) = synced_tickets w"
  by (auto simp: stored_def load_state_def split: option.splits disk_file.splits)

lemma sync_one_stored:
  assumes "open_outcome e (length (opened w)) = Exit_zero"
    and "write_outcome e (writes w) = Write_ok"
  shows "stored (fst (sync_one e u i (w, c)))"
proof -
  let ?w = "(print_msg (Success_line (action_label u (is_ticket_synced w (key i))) (key i)
                      (summary (fields_attr i)))
           (w\<lparr>opened := opened w @ [todo_url i]\<rparr>))\<lparr>synced_tickets := insert (key i) (synced_tickets w)\<rparr>"
  have "fst (sync_one e u i (w, c)) = save_state e ?w"
    by (simp add: sync_one_ok [OF assms(1)] mark_ticket_synced_def print_msg_simps)
  moreover have "write_outcome e (writes ?w) = Write_ok"
    using assms(2) by (simp add: print_msg_simps)
  ultimately show ?thesis
    using save_state_ok [of e ?w] by (simp add: stored_def save_state_synced)
qed

lemma sync_one_writes:
  "open_outcome e (length (opened w)) = Exit_zero \<Longrightarrow>
   writes (fst (sync_one e u i (w, c))) = Suc (writes w)"
  by (simp add: sync_one_ok mark_ticket_synced_def save_state_writes print_msg_simps)

lemma fold_sync_one_stored:
  "stored w \<or> ts \<noteq> [] \<Longrightarrow>
   \<forall>j < length ts. open_outcome e (length (opened w) + j) = Exit_zero \<Longrightarrow>
   \<forall>j < length ts. write_outcome e (writes w + j) = Write_ok \<Longrightarrow>
   stored (fst (fold (sync_one e u) ts (w, c)))"
proof (induction ts arbitrary: w c)
  case Nil
  then show ?case by simp
next
  case (Cons i ts)
  obtain w' c' where s: "sync_one e u i (w, c) = (w', c')"
    by (cases "sync_one e u i (w, c)")
  have o0: "open_outcome e (length (opened w)) = Exit_zero" using Cons.prems(2) by force
  have w0: "write_outcome e (writes w) = Write_ok" using Cons.prems(3) by force
  have st: "stored w'" using sync_one_stored [OF o0 w0, of u i c] s by simp
  have o: "length (opened w') = Suc (length (opened w))"
    using sync_one_opened [of e u i w c] s by simp
  have wr: "writes w' = Suc (writes w)"
    using sync_one_writes [OF o0, of u i c] s by simp
  have "\<forall>j < length ts. open_outcome e (length (opened w') + j) = Exit_zero"
    using Cons.prems(2) o by force
  moreover have "\<forall>j < length ts. write_outcome e (writes w' + j) = Write_ok"
    using Cons.prems(3) wr by force
  ultimately have "stored (fst (fold (sync_one e u) ts (w', c')))"
    using Cons.IH [of w' c'] st by blast
  then show ?case by (simp add: s)
qed

lemma stored_printed: "stored (w\<lparr>printed := ms\<rparr>) = stored w"
  by (cases "state_file w") (auto simp: stored_def split: disk_file.splits)

lemma sync_selected_stored:
  assumes "ts \<noteq> []"
    and "\<forall>j < length ts. open_outcome e (length (opened w) + j) = Exit_zero"
    and "\<forall>j < length ts. write_outcome e (writes w + j) = Write_ok"
  shows "stored (sync_selected e u ts w)"
proof -
  let ?s = "fold (sync_one e u) ts (print_msg (Syncing (length ts)) w, 0)"
  obtain ms where "sync_selected e u ts w =
      (fst ?s)\<lparr>printed := printed (fst ?s) @ Sync_completed (snd ?s) (length ts) # ms\<rparr>"
    using sync_selected_fold by blast
  moreover have "stored (fst ?s)"
    using assms by (intro fold_sync_one_stored) (simp_all add: print_msg_simps)
  ultimately show ?thesis by (simp add: stored_printed)
qed

lemma sync_tickets_stored:
  assumes "selected f u w (fst (fetch_issues jm jql w)) \<noteq> []"
    and "\<forall>j < length (selected f u w (fst (fetch_issues jm jql w))).
           open_outcome e (length (opened w) + j) = Exit_zero"
    and "\<forall>j < length (selected f u w (fst (fetch_issues jm jql w))).
           write_outcome e (writes w + j) = Write_ok"
  shows "stored (snd (sync_tickets e jm jql f u w))"
proof -
  let ?sel = "selected f u w (fst (fetch_issues jm jql w))"
  have ne: "fst (fetch_issues jm jql w) \<noteq> []"
    using assms(1) by (auto simp: selected_Nil)
  obtain ms where "snd (sync_tickets e jm jql f u w) =
      sync_selected e u ?sel
        (w\<lparr>printed := printed w @ ms @ Found (length (fst (fetch_issues jm jql w)))
            # (if length (fst (fetch_issues jm jql w)) - length ?sel > 0
               then [Skipping (length (fst (fetch_issues jm jql w)) - length ?sel)] else [])\<rparr>)"
    using sync_tickets_cases [of e jm jql f u w] ne assms(1) by auto
  moreover have "stored (sync_selected e u ?sel
        (w\<lparr>printed := printed w @ ms @ Found (length (fst (fetch_issues jm jql w)))
            # (if length (fst (fetch_issues jm jql w)) - length ?sel > 0
               then [Skipping (length (fst (fetch_issues jm jql w)) - length ?sel)] else [])\<rparr>))"
    using assms by (intro sync_selected_stored) simp_all
  ultimately show ?thesis by simp
qed

lemma second_run_after_restart:
  assumes start: "synced_tickets (new_StateManager e0 w) = synced_tickets w"
    and ok: "\<forall>j < length (selected False False w (fst (fetch_issues jm jql w))).
               open_outcome e (length (opened w) + j) = Exit_zero
               \<and> write_outcome e (writes w + j) = Write_ok"
  shows "synced_tickets (new_StateManager e1 (snd (sync_tickets e jm jql False False w)))
           = synced_tickets (snd (sync_tickets e jm jql False False w))
    \<and> opened (snd (sync_tickets e2 jm jql False False
                 (new_StateManager e1 (snd (sync_tickets e jm jql False False w)))))
        = opened (snd (sync_tickets e jm jql False False w))"
proof -
  define issues where "issues = fst (fetch_issues jm jql w)"
  define sel where "sel = selected False False w issues"
  define w1 where "w1 = snd (sync_tickets e jm jql False False w)"
  define w2 where "w2 = new_StateManager e1 w1"
  have fin: "finite (synced_tickets w)"
    using start finite_load_state [of e0 w] by (simp add: new_StateManager_synced)
  have su: "succeeded e (length (opened w)) sel = sel"
    using ok unfolding sel_def issues_def by (intro succeeded_all) simp
  have s1: "synced_tickets w1 = synced_tickets w \<union> key ` set sel"
    unfolding w1_def sel_def issues_def using su
    by (simp add: sync_tickets_synced sel_def issues_def)
  have same: "synced_tickets w2 = synced_tickets w1"
  proof (cases "sel = []")
    case True
    then have "state_file w1 = state_file w"
      unfolding w1_def using sync_tickets_idle [of False False w jm jql e]
      by (simp add: sel_def issues_def)
    then have "fst (load_state e1 w1) = fst (load_state e0 w)"
      by (rule load_state_fst_file)
    then show ?thesis
      using start s1 True by (simp add: w2_def new_StateManager_synced)
  next
    case False
    have "stored w1"
      unfolding w1_def using False ok
      by (intro sync_tickets_stored) (simp_all add: sel_def issues_def)
    moreover have "finite (synced_tickets w1)" using fin s1 by simp
    ultimately show ?thesis
      by (simp add: w2_def new_StateManager_synced stored_load)
  qed
  have all: "\<forall>i \<in> set issues. key i \<in> synced_tickets w2"
  proof
    fix i assume i: "i \<in> set issues"
    show "key i \<in> synced_tickets w2"
    proof (cases "is_ticket_synced w (key i)")
      case True
      then show ?thesis using s1 same by (simp add: is_ticket_synced_def)
    next
      case False
      with i have "i \<in> set sel" by (simp add: sel_def selected_def to_sync_def)
      then show ?thesis using s1 same by simp
    qed
  qed
  have f: "fst (fetch_issues jm jql w2) = issues"
    unfolding issues_def by (rule fetch_issues_fst)
  have n: "selected False False w2 (fst (fetch_issues jm jql w2)) = []"
    using all by (simp add: f selected_def to_sync_def is_ticket_synced_def)
  have o2: "opened w2 = opened w1"
    by (simp add: w2_def new_StateManager_opened)
  have "opened (snd (sync_tickets e2 jm jql False False w2)) = opened w1"
    by (simp add: sync_tickets_opened n o2)
  with same show ?thesis unfolding w2_def w1_def by simp
qed

lemma restart_after_failed_write:
  "opened (snd (sync_tickets env_no_write (jira_of [ticket ''A'']) [] False False
     (new_StateManager env_no_write
        (snd (sync_tickets env_no_write (jira_of [ticket ''A'']) [] False False world0)))))
   = [todo_url (ticket ''A''), todo_url (ticket ''A'')]"
  by code_simp

subsection \<open>Failures and the report of a run\<close>







end
